theory Spec2Isabelle
  imports Complex_Main
begin

section \<open>The notebook session of the Universal Quantum Notebook\<close>

text \<open>
  The \<open>Notebook\<close> component of the repository keeps the cells, the active cell, the
  notification queue and the pending \<open>setTimeout\<close> callbacks of one session. Its
  operations (\<open>addNotification\<close>, \<open>updateCell\<close>, \<open>executeCell\<close>, \<open>addCell\<close>,
  \<open>deleteCell\<close>, \<open>moveCell\<close>, \<open>runAllCells\<close>, \<open>saveNotebook\<close>, \<open>loadNotebook\<close>) are
  embedded here as functions from session state to session state. None of them contains
  a \<open>throw\<close>, so none of them has an error branch. The clock and \<open>Math.random\<close> are
  inputs of the session: the state carries the current time, the random suffix that
  each later \<open>addCell\<close> will read, and the clock and random readings that the updater
  of each later notification will see.
\<close>

subsection \<open>Data\<close>

text \<open>Values of TypeScript type \<open>any\<close> (cell content, outputs, metadata entries).\<close>

datatype jsvalue =
    JUndefined
  | JNull
  | JBool bool
  | JNum int
  | JStr string
  | JArr "jsvalue list"
  | JObj "(string \<times> jsvalue) list"

text \<open>
  The JavaScript \<open>number\<close> of \<open>executionCount\<close>: an IEEE double. \<open>Finite q\<close> carries
  the exact value \<open>q\<close> of a finite double, that is \<open>q = m * 2 ^ e\<close> for integers
  \<open>\<bar>m\<bar> < 2 ^ 53\<close> and \<open>- 1074 \<le> e \<le> 971\<close>. The two zeros are one value: the
  operations below do not tell them apart.
\<close>

datatype jsnumber = Finite rat | PosInfinity | NegInfinity | NaN

text \<open>The number of binary digits of a natural number.\<close>

fun bit_length :: "nat \<Rightarrow> nat" where
  "bit_length n = (if n = 0 then 0 else Suc (bit_length (n div 2)))"

declare bit_length.simps [simp del]

text \<open>
  Rounding an integer to 53 significant binary digits, to the nearest and to the even
  one of two nearest, as double arithmetic rounds a result.
\<close>

definition round53 :: "int \<Rightarrow> int" where
  "round53 a =
     (if \<bar>a\<bar> \<le> 2 ^ 53 then a
      else (let k = bit_length (nat \<bar>a\<bar>) - 53;
                q = \<bar>a\<bar> div 2 ^ k;
                r = \<bar>a\<bar> mod 2 ^ k;
                h = 2 ^ (k - 1);
                q' = (if h < r \<or> (r = h \<and> odd q) then q + 1 else q)
            in sgn a * (q' * 2 ^ k)))"

text \<open>
  \<open>x + 1\<close> on doubles. The exact sum of a finite double and 1 is a fraction \<open>a / b\<close>
  in lowest terms with \<open>b\<close> a power of two; the result is that sum with \<open>a\<close> rounded
  to 53 digits. It stays below the largest double, so no finite operand gives
  \<open>Infinity\<close>.
\<close>

definition js_add_one :: "jsnumber \<Rightarrow> jsnumber" where
  "js_add_one x =
     (case x of
        Finite q \<Rightarrow> (let (a, b) = quotient_of (q + 1) in Finite (Fract (round53 a) b))
      | PosInfinity \<Rightarrow> PosInfinity
      | NegInfinity \<Rightarrow> NegInfinity
      | NaN \<Rightarrow> NaN)"

text \<open>\<open>x || 0\<close> on an optional number: \<open>undefined\<close>, 0 and \<open>NaN\<close> are falsy.\<close>

definition js_or_zero :: "jsnumber option \<Rightarrow> jsnumber" where
  "js_or_zero x =
     (case x of
        None \<Rightarrow> Finite 0
      | Some v \<Rightarrow> (if v = Finite 0 \<or> v = NaN then Finite 0 else v))"

text \<open>The enum \<open>ExpandedCellType\<close>, with the string each member stands for.\<close>

datatype ExpandedCellType =
    Code | Markdown | Data | Visualization | AIChat | SQL | Drawing | Form
  | WebComponent | FileBrowser | Terminal | Embed | Timeline | Map | Audio | Video

fun type_string :: "ExpandedCellType \<Rightarrow> string" where
  "type_string Code = ''code''"
| "type_string Markdown = ''markdown''"
| "type_string Data = ''data''"
| "type_string Visualization = ''visualization''"
| "type_string AIChat = ''ai_chat''"
| "type_string SQL = ''sql''"
| "type_string Drawing = ''drawing''"
| "type_string Form = ''form''"
| "type_string WebComponent = ''web_component''"
| "type_string FileBrowser = ''file_browser''"
| "type_string Terminal = ''terminal''"
| "type_string Embed = ''embed''"
| "type_string Timeline = ''timeline''"
| "type_string Map = ''map''"
| "type_string Audio = ''audio''"
| "type_string Video = ''video''"

datatype cell_status = Idle | Running | Error | Success | Queued

datatype cell_visibility = Public | Private | Restricted | Team

datatype CellComment =
  CellComment (comment_id: string) (comment_author: string) (comment_timestamp: string)
    (comment_text: string) (resolved: "bool option") (replies: "CellComment list option")

record cursor =
  cursor_start :: int
  cursor_end :: int

record collaborator =
  collaborator_id :: string
  collaborator_cursor :: "cursor option"

record executionTime_rec =
  time_start :: string
  time_end :: string
  durationMs :: int

text \<open>
  \<open>EnhancedCell\<close>: \<open>id\<close>, \<open>type\<close> and \<open>content\<close> are required, every other field is
  optional (\<open>None\<close> is JavaScript's \<open>undefined\<close>).
\<close>

record EnhancedCell =
  cell_id :: string
  cell_type :: ExpandedCellType
  content :: jsvalue
  outputs :: "jsvalue list option"
  executionCount :: "jsnumber option"
  status :: "cell_status option"
  language :: "string option"
  metadata :: "(string \<times> jsvalue) list option"
  comments :: "CellComment list option"
  collaborators :: "collaborator list option"
  executionTime :: "executionTime_rec option"
  author :: "string option"
  visibility :: "cell_visibility option"
  lastModified :: "string option"
  createdAt :: "string option"

text \<open>
  \<open>Partial<EnhancedCell>\<close>, the second argument of \<open>updateCell\<close>: every key of
  \<open>EnhancedCell\<close>, each one optional. \<open>None\<close> is an absent key; \<open>Some v\<close> is a key
  that is present with value \<open>v\<close> (for the optional fields of the cell \<open>v\<close> may itself
  be \<open>undefined\<close>).
\<close>

record cell_updates =
  upd_id :: "string option"
  upd_type :: "ExpandedCellType option"
  upd_content :: "jsvalue option"
  upd_outputs :: "jsvalue list option option"
  upd_executionCount :: "jsnumber option option"
  upd_status :: "cell_status option option"
  upd_language :: "string option option"
  upd_metadata :: "(string \<times> jsvalue) list option option"
  upd_comments :: "CellComment list option option"
  upd_collaborators :: "collaborator list option option"
  upd_executionTime :: "executionTime_rec option option"
  upd_author :: "string option option"
  upd_visibility :: "cell_visibility option option"
  upd_lastModified :: "string option option"
  upd_createdAt :: "string option option"

text \<open>The update with no key, \<open>{}\<close>.\<close>

definition no_updates :: cell_updates where
  "no_updates = \<lparr> upd_id = None, upd_type = None, upd_content = None, upd_outputs = None,
     upd_executionCount = None, upd_status = None, upd_language = None,
     upd_metadata = None, upd_comments = None, upd_collaborators = None,
     upd_executionTime = None, upd_author = None, upd_visibility = None,
     upd_lastModified = None, upd_createdAt = None \<rparr>"

datatype notification_type = Info | Warning | NError | NSuccess | System | Collaborator

text \<open>
  \<open>Notification\<close>. The timestamp is the clock reading in milliseconds that
  \<open>new Date().toISOString()\<close> renders.
\<close>

record Notification =
  notif_id :: string
  notif_type :: notification_type
  message :: string
  timestamp :: nat
  read :: bool
  source :: "string option"

datatype sidebar_panel = Outline | Variables | Files | Plugins

text \<open>
  The two callbacks the component hands to \<open>setTimeout\<close>: the auto-dismiss of
  \<open>addNotification\<close>, and the mock execution result of \<open>executeCell\<close>, which holds the
  cell id and the \<open>cells\<close> array its closure captured.
\<close>

datatype callback =
    AutoDismiss
  | MockExecutionResult string "EnhancedCell list"

text \<open>
  What the updater that \<open>addNotification\<close> hands to \<open>setNotifications\<close> reads when
  React runs it, at the call or in a later render: \<open>Date.now()\<close> and the random suffix
  for the id, and the clock again for the timestamp.
\<close>

record updater_reads =
  id_time :: nat
  id_suffix :: string
  stamp_time :: nat

text \<open>
  The session: the \<open>useState\<close> values of the component, the pending timers as pairs of
  due time and callback in the order \<open>setTimeout\<close> was called, and the clock. The
  results of \<open>Math.random().toString(36).substring(2, 9)\<close> are given per purpose, since
  renders read \<open>Math.random\<close> too: \<open>cell_suffixes k\<close> is the suffix that the call of
  \<open>addCell\<close> after \<open>k\<close> earlier ones reads, and \<open>notification_reads k\<close> is what the
  updater of the notification pushed after \<open>k\<close> earlier ones reads.
\<close>

record notebook =
  cells :: "EnhancedCell list"
  activeCellId :: "string option"
  notifications :: "Notification list"
  commandPaletteOpen :: bool
  aiAssistantOpen :: bool
  globalSearchTerm :: string
  activeSidebarPanel :: sidebar_panel
  timers :: "(nat \<times> callback) list"
  now :: nat
  cell_suffixes :: "nat \<Rightarrow> string"
  cells_added :: nat
  notification_reads :: "nat \<Rightarrow> updater_reads"
  notifications_pushed :: nat

subsection \<open>Identifiers\<close>

text \<open>Decimal rendering of \<open>Date.now()\<close> inside a template string.\<close>

fun show_nat :: "nat \<Rightarrow> string" where
  "show_nat n =
     (if n < 10 then [''0123456789'' ! n]
      else show_nat (n div 10) @ [''0123456789'' ! (n mod 10)])"

declare show_nat.simps [simp del]

text \<open>
  \<open>generateUniqueId(prefix)\<close> is
  \<open>`${prefix}-${Date.now()}-${Math.random().toString(36).substring(2, 9)}`\<close>.
  Its second and third argument here are what \<open>Date.now()\<close> and the random expression
  return in the call.
\<close>

definition generateUniqueId :: "string \<Rightarrow> nat \<Rightarrow> string \<Rightarrow> string" where
  "generateUniqueId prefix time suffix = prefix @ ''-'' @ show_nat time @ ''-'' @ suffix"

subsection \<open>Timers\<close>

definition setTimeout :: "callback \<Rightarrow> nat \<Rightarrow> notebook \<Rightarrow> notebook" where
  "setTimeout cb delay s = s\<lparr>timers := timers s @ [(now s + delay, cb)]\<rparr>"

subsection \<open>Operations of the component\<close>

text \<open>
  \<open>addNotification(n)\<close> queues the updater
  \<open>prev => [...prev, {id, timestamp, read: false, ...n}]\<close> and sets the timer that runs
  \<open>prev.slice(1)\<close> on the queue 5000 ms after the call. The argument has the keys
  \<open>type\<close>, \<open>message\<close> and the optional \<open>source\<close>. The id and the timestamp are built
  inside the updater, from what it reads when it runs.
\<close>

definition addNotification ::
  "notification_type \<Rightarrow> string \<Rightarrow> string option \<Rightarrow> notebook \<Rightarrow> notebook" where
  "addNotification ty msg src s =
     (let r = notification_reads s (notifications_pushed s);
          n = \<lparr> notif_id = generateUniqueId ''notif'' (id_time r) (id_suffix r),
                notif_type = ty, message = msg, timestamp = stamp_time r,
                read = False, source = src \<rparr>;
          s1 = s\<lparr>notifications := notifications s @ [n],
                 notifications_pushed := Suc (notifications_pushed s)\<rparr>
      in setTimeout AutoDismiss 5000 s1)"

text \<open>The object spread \<open>{ ...c, ...updates }\<close>: every key present in \<open>updates\<close> wins.\<close>

definition merge :: "EnhancedCell \<Rightarrow> cell_updates \<Rightarrow> EnhancedCell" where
  "merge c u =
     \<lparr> cell_id = (case upd_id u of None \<Rightarrow> cell_id c | Some v \<Rightarrow> v),
       cell_type = (case upd_type u of None \<Rightarrow> cell_type c | Some v \<Rightarrow> v),
       content = (case upd_content u of None \<Rightarrow> content c | Some v \<Rightarrow> v),
       outputs = (case upd_outputs u of None \<Rightarrow> outputs c | Some v \<Rightarrow> v),
       executionCount =
         (case upd_executionCount u of None \<Rightarrow> executionCount c | Some v \<Rightarrow> v),
       status = (case upd_status u of None \<Rightarrow> status c | Some v \<Rightarrow> v),
       language = (case upd_language u of None \<Rightarrow> language c | Some v \<Rightarrow> v),
       metadata = (case upd_metadata u of None \<Rightarrow> metadata c | Some v \<Rightarrow> v),
       comments = (case upd_comments u of None \<Rightarrow> comments c | Some v \<Rightarrow> v),
       collaborators =
         (case upd_collaborators u of None \<Rightarrow> collaborators c | Some v \<Rightarrow> v),
       executionTime =
         (case upd_executionTime u of None \<Rightarrow> executionTime c | Some v \<Rightarrow> v),
       author = (case upd_author u of None \<Rightarrow> author c | Some v \<Rightarrow> v),
       visibility = (case upd_visibility u of None \<Rightarrow> visibility c | Some v \<Rightarrow> v),
       lastModified =
         (case upd_lastModified u of None \<Rightarrow> lastModified c | Some v \<Rightarrow> v),
       createdAt = (case upd_createdAt u of None \<Rightarrow> createdAt c | Some v \<Rightarrow> v) \<rparr>"

text \<open>
  \<open>updateCell(cellId, updates)\<close> is
  \<open>setCells(prev => prev.map(c => c.id === cellId ? { ...c, ...updates } : c))\<close>;
  the third parameter \<open>pushToHistory\<close> is not read.
\<close>

definition updateCell :: "string \<Rightarrow> cell_updates \<Rightarrow> notebook \<Rightarrow> notebook" where
  "updateCell cellId updates s =
     s\<lparr>cells := map (\<lambda>c. if cell_id c = cellId then merge c updates else c) (cells s)\<rparr>"

text \<open>The mock result that the timer of \<open>executeCell\<close> writes.\<close>

definition mock_outputs :: "jsvalue list" where
  "mock_outputs =
     [JObj [(''type'', JStr ''stream''), (''name'', JStr ''stdout''),
            (''text'', JStr ''Execution completed successfully.\<newline>[Result]: 42'')]]"

text \<open>
  \<open>(cells.find(c => c.id === cellId)?.executionCount || 0) + 1\<close> on the captured
  \<open>cells\<close>: \<open>find\<close> gives the first cell with the id; a missing cell and a missing
  count are \<open>undefined\<close>.
\<close>

definition next_executionCount :: "EnhancedCell list \<Rightarrow> string \<Rightarrow> jsnumber" where
  "next_executionCount captured cellId =
     js_add_one
       (js_or_zero
          (case find (\<lambda>c. cell_id c = cellId) captured of
             None \<Rightarrow> None
           | Some c \<Rightarrow> executionCount c))"

definition running_updates :: cell_updates where
  "running_updates = no_updates\<lparr>upd_status := Some (Some Running)\<rparr>"

definition result_updates :: "EnhancedCell list \<Rightarrow> string \<Rightarrow> cell_updates" where
  "result_updates captured cellId =
     no_updates\<lparr>
       upd_status := Some (Some Success),
       upd_outputs := Some (Some mock_outputs),
       upd_executionCount := Some (Some (next_executionCount captured cellId)),
       upd_executionTime :=
         Some (Some \<lparr> time_start = '''', time_end = '''', durationMs = 450 \<rparr>)\<rparr>"

text \<open>
  \<open>executeCell(cellId)\<close>. Its first argument here is the \<open>cells\<close> array of the render
  that created the callback. The function marks the cell running, pushes a
  notification and schedules the mock result for 800 ms later; it has no \<open>await\<close>, so
  all of this happens before it returns.
\<close>

definition executeCell :: "EnhancedCell list \<Rightarrow> string \<Rightarrow> notebook \<Rightarrow> notebook" where
  "executeCell captured cellId s =
     (let s1 = updateCell cellId running_updates s;
          s2 = addNotification Info ''Executing cell...'' None s1
      in setTimeout (MockExecutionResult cellId captured) 800 s2)"

text \<open>
  \<open>addCell(type, content, index?, metadata?)\<close>. The parameter \<open>index\<close> is not read.
\<close>

definition addCell ::
  "ExpandedCellType \<Rightarrow> jsvalue \<Rightarrow> int option \<Rightarrow> (string \<times> jsvalue) list option \<Rightarrow>
   notebook \<Rightarrow> notebook" where
  "addCell ty cont index meta s =
     (let cid = generateUniqueId ''cell'' (now s) (cell_suffixes s (cells_added s));
          s1 = s\<lparr>cells_added := Suc (cells_added s)\<rparr>;
          newCell = \<lparr> cell_id = cid, cell_type = ty, content = cont,
                      outputs = Some [], executionCount = Some (Finite 0),
                      status = Some Idle,
                      language = None,
                      metadata = Some (case meta of None \<Rightarrow> [] | Some m \<Rightarrow> m),
                      comments = Some [], collaborators = None, executionTime = None,
                      author = None, visibility = None, lastModified = None,
                      createdAt = None \<rparr>;
          s2 = s1\<lparr>cells := cells s1 @ [newCell]\<rparr>;
          s3 = s2\<lparr>activeCellId := Some (cell_id newCell)\<rparr>
      in addNotification Info (''Added '' @ type_string ty @ '' cell'') None s3)"

text \<open>\<open>deleteCell(cellId)\<close> filters the cells and pushes a notification.\<close>

definition deleteCell :: "string \<Rightarrow> notebook \<Rightarrow> notebook" where
  "deleteCell cellId s =
     (let s1 = s\<lparr>cells := filter (\<lambda>c. cell_id c \<noteq> cellId) (cells s)\<rparr>
      in addNotification Info ''Cell deleted'' None s1)"

text \<open>\<open>moveCell(from, to)\<close> has the empty body.\<close>

definition moveCell :: "int \<Rightarrow> int \<Rightarrow> notebook \<Rightarrow> notebook" where
  "moveCell from to s = s"

text \<open>
  \<open>runAllCells()\<close> pushes a notification and walks the captured \<open>cells\<close>, calling
  \<open>executeCell\<close> (created by the same render, so with the same captured array) on each
  cell whose type passes \<open>['code', 'sql'].includes(c.type)\<close>.
\<close>

definition runAllCells :: "notebook \<Rightarrow> notebook" where
  "runAllCells s =
     (let captured = cells s;
          s1 = addNotification Info ''Running all cells...'' None s
      in fold (\<lambda>c st. if type_string (cell_type c) \<in> set [''code'', ''sql'']
                       then executeCell captured (cell_id c) st else st)
           captured s1)"

definition saveNotebook :: "notebook \<Rightarrow> notebook" where
  "saveNotebook s = addNotification NSuccess ''Notebook Saved'' None s"

text \<open>\<open>loadNotebook(id)\<close> has the empty body.\<close>

definition loadNotebook :: "string \<Rightarrow> notebook \<Rightarrow> notebook" where
  "loadNotebook nid s = s"

text \<open>
  The visibility rule of the "Run Cell" button in \<open>CellControls\<close>:
  \<open>['code', 'ai_chat', 'sql', 'form'].includes(cellType)\<close>.
\<close>

definition runCellVisible :: "ExpandedCellType \<Rightarrow> bool" where
  "runCellVisible ty \<longleftrightarrow> type_string ty \<in> set [''code'', ''ai_chat'', ''sql'', ''form'']"

subsection \<open>The passage of time\<close>

text \<open>What a timer callback does when it fires.\<close>

fun fire :: "callback \<Rightarrow> notebook \<Rightarrow> notebook" where
  "fire AutoDismiss s = s\<lparr>notifications := drop 1 (notifications s)\<rparr>"
| "fire (MockExecutionResult cellId captured) s =
     updateCell cellId (result_updates captured cellId) s"

text \<open>
  \<open>advance t\<close> lets the clock reach \<open>t\<close>: the timers due by then fire, earliest first
  and in the order of their \<open>setTimeout\<close> calls where due times are equal; the others
  stay pending. No callback of the component sets a timer.
\<close>

definition due_by :: "nat \<Rightarrow> nat \<times> callback \<Rightarrow> bool" where
  "due_by t tm \<longleftrightarrow> fst tm \<le> t"

definition advance :: "nat \<Rightarrow> notebook \<Rightarrow> notebook" where
  "advance t s =
     (let due = sort_key fst (filter (due_by t) (timers s));
          s1 = s\<lparr>timers := filter (\<lambda>tm. \<not> due_by t tm) (timers s)\<rparr>;
          s2 = fold (\<lambda>tm st. fire (snd tm) st) due s1
      in s2\<lparr>now := max t (now s2)\<rparr>)"

text \<open>The cell ids of the executions dispatched and not yet completed, in dispatch order.\<close>

fun execution_of :: "nat \<times> callback \<Rightarrow> string list" where
  "execution_of (d, MockExecutionResult cellId captured) = [cellId]"
| "execution_of (d, AutoDismiss) = []"

definition pending_executions :: "notebook \<Rightarrow> string list" where
  "pending_executions s = concat (map execution_of (timers s))"

subsection \<open>Auxiliary definitions\<close>

text \<open>
  The state the component mounts with at time \<open>t\<close>: four cells whose ids come from
  \<open>generateUniqueId('cell')\<close> with the suffixes \<open>rnd 0\<close> to \<open>rnd 3\<close>, the first of
  them active, no notification, no timer.
\<close>

definition initial_cell ::
  "string \<Rightarrow> ExpandedCellType \<Rightarrow> jsvalue \<Rightarrow> cell_status option \<Rightarrow>
   jsnumber option \<Rightarrow> EnhancedCell" where
  "initial_cell cid ty cont st cnt =
     \<lparr> cell_id = cid, cell_type = ty, content = cont, outputs = None,
       executionCount = cnt, status = st, language = None, metadata = Some [],
       comments = Some [], collaborators = None, executionTime = None, author = None,
       visibility = None, lastModified = None, createdAt = None \<rparr>"

definition initialNotebook ::
  "nat \<Rightarrow> (nat \<Rightarrow> string) \<Rightarrow> (nat \<Rightarrow> string) \<Rightarrow> (nat \<Rightarrow> updater_reads) \<Rightarrow>
   notebook" where
  \<open>initialNotebook t rnd suffixes reads =
     (let cs =
        [initial_cell (generateUniqueId ''cell'' t (rnd 0)) Markdown
           (JStr ''# Universal Notebook\<newline>Welcome to the future of interactive computing.'')
           None None,
         initial_cell (generateUniqueId ''cell'' t (rnd 1)) Code
           (JObj [(''code'', JStr ''print("Hello World")''), (''language'', JStr ''python'')])
           (Some Idle) (Some (Finite 1)),
         initial_cell (generateUniqueId ''cell'' t (rnd 2)) Data
           (JObj [(''data'', JArr [JArr [JStr ''ID'', JStr ''Name''],
                                   JArr [JNum 1, JStr ''Alpha''],
                                   JArr [JNum 2, JStr ''Beta'']]),
                  (''columns'', JArr [JStr ''ID'', JStr ''Name''])])
           None None,
         initial_cell (generateUniqueId ''cell'' t (rnd 3)) AIChat
           (JObj [(''prompt'', JStr '''')]) (Some Idle) None]
      in \<lparr> cells = cs,
           activeCellId = (case cs of [] \<Rightarrow> None | c # _ \<Rightarrow> Some (cell_id c)),
           notifications = [], commandPaletteOpen = False, aiAssistantOpen = False,
           globalSearchTerm = '''', activeSidebarPanel = Outline, timers = [], now = t,
           cell_suffixes = suffixes, cells_added = 0, notification_reads = reads,
           notifications_pushed = 0 \<rparr>)\<close>

text \<open>
  A session used for the concrete evaluations below: mounted at time 1000, with the
  suffixes r0 to r3 read at the mount, r4, r5 and so on read by the calls of \<open>addCell\<close>,
  and n0, n1 and so on read by the updaters of the notifications, each one 1 ms after
  the mount.
\<close>

definition demo_random :: "nat \<Rightarrow> string" where
  "demo_random k = ''r'' @ show_nat k"

definition demo_reads :: "nat \<Rightarrow> updater_reads" where
  "demo_reads k = \<lparr> id_time = 1001, id_suffix = ''n'' @ show_nat k, stamp_time = 1001 \<rparr>"

definition demo :: notebook where
  "demo = initialNotebook 1000 demo_random (\<lambda>k. demo_random (k + 4)) demo_reads"


text \<open>A cell without the four fields that an execution writes.\<close>

definition execution_fields_cleared :: "EnhancedCell \<Rightarrow> EnhancedCell" where
  "execution_fields_cleared c =
     c\<lparr>outputs := None, executionCount := None, status := None, executionTime := None\<rparr>"

text \<open>The queue as the status bar reads it: type and message of each entry.\<close>

definition notification_log :: "notebook \<Rightarrow> (notification_type \<times> string) list" where
  "notification_log s = map (\<lambda>n. (notif_type n, message n)) (notifications s)"

text \<open>
  Three pushes in a row: push \<open>a\<close>, let \<open>d1\<close> ms pass, push \<open>b\<close>, let \<open>d2\<close> ms pass,
  push \<open>c\<close>. Each push is a pair of notification type and message.
\<close>

definition push_three ::
  "notification_type \<times> string \<Rightarrow> notification_type \<times> string \<Rightarrow>
   notification_type \<times> string \<Rightarrow> nat \<Rightarrow> nat \<Rightarrow> notebook \<Rightarrow> notebook" where
  "push_three a b c d1 d2 s =
     (let s1 = addNotification (fst a) (snd a) None s;
          s2 = addNotification (fst b) (snd b) None (advance (now s1 + d1) s1);
          s3 = addNotification (fst c) (snd c) None (advance (now s2 + d2) s2)
      in s3)"

text \<open>Whether the auto-dismiss timer of a push made at \<open>pushed_at\<close> has fired by \<open>t\<close>.\<close>

definition decayed :: "nat \<Rightarrow> nat \<Rightarrow> nat" where
  "decayed pushed_at t = (if pushed_at + 5000 \<le> t then 1 else 0)"

section \<open>Properties\<close>

subsection \<open>Notifications and timers\<close>

lemma addNotification_cells [simp]: "cells (addNotification ty msg src s) = cells s"
  by (simp add: addNotification_def Let_def generateUniqueId_def setTimeout_def)

lemma addNotification_activeCellId [simp]:
  "activeCellId (addNotification ty msg src s) = activeCellId s"
  by (simp add: addNotification_def Let_def generateUniqueId_def setTimeout_def)

lemma addNotification_now [simp]: "now (addNotification ty msg src s) = now s"
  by (simp add: addNotification_def Let_def generateUniqueId_def setTimeout_def)

lemma addNotification_cell_suffixes [simp]:
  "cell_suffixes (addNotification ty msg src s) = cell_suffixes s"
  by (simp add: addNotification_def Let_def setTimeout_def)

lemma addNotification_cells_added [simp]:
  "cells_added (addNotification ty msg src s) = cells_added s"
  by (simp add: addNotification_def Let_def setTimeout_def)

lemma addNotification_notifications_pushed [simp]:
  "notifications_pushed (addNotification ty msg src s) = Suc (notifications_pushed s)"
  by (simp add: addNotification_def Let_def setTimeout_def)

lemma addNotification_notifications:
  "notifications (addNotification ty msg src s) =
     notifications s @
       [\<lparr> notif_id =
            ''notif-'' @ show_nat (id_time (notification_reads s (notifications_pushed s))) @
            ''-'' @ id_suffix (notification_reads s (notifications_pushed s)),
          notif_type = ty, message = msg,
          timestamp = stamp_time (notification_reads s (notifications_pushed s)),
          read = False, source = src \<rparr>]"
  by (simp add: addNotification_def Let_def generateUniqueId_def setTimeout_def)

lemma addNotification_timers:
  "timers (addNotification ty msg src s) = timers s @ [(now s + 5000, AutoDismiss)]"
  by (simp add: addNotification_def Let_def generateUniqueId_def setTimeout_def)

lemma demo_ids:
  "map cell_id (cells demo) =
     [''cell-1000-r0'', ''cell-1000-r1'', ''cell-1000-r2'', ''cell-1000-r3'']"
  by (simp add: demo_def initialNotebook_def initial_cell_def demo_random_def generateUniqueId_def
      show_nat.simps)

lemma demo_cells:
  \<open>cells demo =
     [initial_cell ''cell-1000-r0'' Markdown
        (JStr ''# Universal Notebook\<newline>Welcome to the future of interactive computing.'')
        None None,
      initial_cell ''cell-1000-r1'' Code
        (JObj [(''code'', JStr ''print("Hello World")''), (''language'', JStr ''python'')])
        (Some Idle) (Some (Finite 1)),
      initial_cell ''cell-1000-r2'' Data
        (JObj [(''data'', JArr [JArr [JStr ''ID'', JStr ''Name''],
                                JArr [JNum 1, JStr ''Alpha''],
                                JArr [JNum 2, JStr ''Beta'']]),
               (''columns'', JArr [JStr ''ID'', JStr ''Name''])])
        None None,
      initial_cell ''cell-1000-r3'' AIChat (JObj [(''prompt'', JStr '''')]) (Some Idle) None]\<close>
  by (simp add: demo_def initialNotebook_def demo_random_def generateUniqueId_def show_nat.simps)

lemma demo_now: "now demo = 1000"
  by (simp add: demo_def initialNotebook_def)

lemma demo_notifications: "notifications demo = []"
  by (simp add: demo_def initialNotebook_def)

lemma demo_timers: "timers demo = []"
  by (simp add: demo_def initialNotebook_def)

subsection \<open>deleteCell\<close>

text \<open>
  C10. When \<open>deleteCell\<close> is called with an id that no cell has, the cell sequence
  stays exactly as it was, and an info notification with the message "Cell deleted" is
  still appended to the queue.
\<close>

theorem deleteCell_absent:
  "cellId \<notin> set (map cell_id (cells s)) \<Longrightarrow>
     cells (deleteCell cellId s) = cells s \<and>
     notifications (deleteCell cellId s) =
       notifications s @
         [\<lparr> notif_id =
              ''notif-'' @ show_nat (id_time (notification_reads s (notifications_pushed s))) @
              ''-'' @ id_suffix (notification_reads s (notifications_pushed s)),
            notif_type = Info, message = ''Cell deleted'',
            timestamp = stamp_time (notification_reads s (notifications_pushed s)),
            read = False, source = None \<rparr>]"
proof -
  assume absent: "cellId \<notin> set (map cell_id (cells s))"
  then have "filter (\<lambda>c. cell_id c \<noteq> cellId) (cells s) = cells s"
    by (auto simp: filter_id_conv)
  then show ?thesis
    by (simp add: deleteCell_def addNotification_notifications)
qed

theorem deleteCell_absent_witness:
  "''cell-0-zzz'' \<notin> set (map cell_id (cells demo)) \<and>
   cells (deleteCell ''cell-0-zzz'' demo) = cells demo \<and>
   notification_log (deleteCell ''cell-0-zzz'' demo) = [(Info, ''Cell deleted'')]"
proof -
  have absent: "''cell-0-zzz'' \<notin> set (map cell_id (cells demo))"
    by (simp add: demo_ids)
  have "notifications demo = []"
    by (simp add: demo_def initialNotebook_def)
  with absent deleteCell_absent [OF absent] show ?thesis
    by (simp add: notification_log_def)
qed

text \<open>
  C4, as the code has it. \<open>deleteCell\<close> removes every cell with the given id and never
  writes \<open>activeCellId\<close>: the selection is the same after the call, whether the deleted
  cell was the active one or not.
\<close>

theorem deleteCell_keeps_active:
  "activeCellId (deleteCell cellId s) = activeCellId s \<and>
   cells (deleteCell cellId s) = filter (\<lambda>c. cell_id c \<noteq> cellId) (cells s)"
  by (simp add: deleteCell_def)

text \<open>
  Deleting the active cell of the mounted notebook removes the cell and leaves
  \<open>activeCellId\<close> pointing at it.
\<close>

theorem deleteCell_active_counterexample:
  "activeCellId demo = Some ''cell-1000-r0'' \<and>
   map cell_id (cells (deleteCell ''cell-1000-r0'' demo)) =
     [''cell-1000-r1'', ''cell-1000-r2'', ''cell-1000-r3''] \<and>
   activeCellId (deleteCell ''cell-1000-r0'' demo) \<noteq> None"
  by (simp add: deleteCell_def demo_def initialNotebook_def initial_cell_def
      demo_random_def generateUniqueId_def show_nat.simps)

subsection \<open>moveCell\<close>

text \<open>
  C7, as the code has it. \<open>moveCell\<close> is a stub: for all arguments, valid positions or
  not, it returns the session unchanged, so no cell is relocated and no call fails.
\<close>

theorem moveCell_noop: "moveCell from to s = s"
  by (simp add: moveCell_def)

text \<open>
  Moving position 0 to position 1 in the mounted notebook: the cell at position 1 is
  still the second cell, and the first cell is still at position 0.
\<close>

theorem moveCell_counterexample:
  "map cell_id (cells (moveCell 0 1 demo)) =
     [''cell-1000-r0'', ''cell-1000-r1'', ''cell-1000-r2'', ''cell-1000-r3''] \<and>
   cell_id (cells (moveCell 0 1 demo) ! 1) \<noteq> cell_id (cells demo ! 0)"
  by (simp add: moveCell_def demo_def initialNotebook_def initial_cell_def
      demo_random_def generateUniqueId_def show_nat.simps)

subsection \<open>executeCell\<close>

lemma cleared_merge_result:
  "execution_fields_cleared (merge c (result_updates captured cellId)) = execution_fields_cleared c"
  by (simp add: execution_fields_cleared_def merge_def result_updates_def no_updates_def)

lemma cleared_merge_running:
  "execution_fields_cleared (merge c running_updates) = execution_fields_cleared c"
  by (simp add: execution_fields_cleared_def merge_def running_updates_def no_updates_def)

lemma cleared_cell_id: "cell_id (execution_fields_cleared c) = cell_id c"
  by (simp add: execution_fields_cleared_def)

lemma merge_running: "merge c running_updates = c\<lparr>status := Some Running\<rparr>"
  by (simp add: merge_def running_updates_def no_updates_def)

lemma merge_result:
  "merge c (result_updates captured cellId) =
     (execution_fields_cleared c)\<lparr>outputs := Some mock_outputs,
        executionCount := Some (next_executionCount captured cellId),
        status := Some Success,
        executionTime := Some \<lparr> time_start = '''', time_end = '''', durationMs = 450 \<rparr>\<rparr>"
  by (simp add: merge_def result_updates_def no_updates_def execution_fields_cleared_def)

lemma fire_cleared:
  "map execution_fields_cleared (cells (fire cb s)) = map execution_fields_cleared (cells s)"
  by (cases cb) (simp_all add: updateCell_def cleared_merge_result)

lemma fold_fire_cleared:
  "map execution_fields_cleared (cells (fold (\<lambda>tm st. fire (snd tm) st) tms s)) =
     map execution_fields_cleared (cells s)"
  by (induction tms arbitrary: s) (simp_all add: fire_cleared)

lemma insort_key_snoc:
  "f x \<le> f y \<Longrightarrow> insort_key f x (zs @ [y]) = insort_key f x zs @ [y]"
  by (induction zs) auto

lemma sort_key_snoc:
  "(\<And>x. x \<in> set xs \<Longrightarrow> f x \<le> f y) \<Longrightarrow> sort_key f (xs @ [y]) = sort_key f xs @ [y]"
  by (induction xs) (simp_all add: insort_key_snoc)

lemma executeCell_timers:
  "timers (executeCell captured cellId s) =
     timers s @ [(now s + 5000, AutoDismiss), (now s + 800, MockExecutionResult cellId captured)]"
  by (simp add: executeCell_def Let_def setTimeout_def addNotification_timers updateCell_def)

lemma executeCell_cells:
  "cells (executeCell captured cellId s) =
     map (\<lambda>c. if cell_id c = cellId then c\<lparr>status := Some Running\<rparr> else c) (cells s)"
  by (simp add: executeCell_def Let_def setTimeout_def updateCell_def merge_running)

lemma executeCell_notifications:
  "notifications (executeCell captured cellId s) =
     notifications s @
       [\<lparr> notif_id =
            ''notif-'' @ show_nat (id_time (notification_reads s (notifications_pushed s))) @
            ''-'' @ id_suffix (notification_reads s (notifications_pushed s)),
          notif_type = Info, message = ''Executing cell...'',
          timestamp = stamp_time (notification_reads s (notifications_pushed s)),
          read = False, source = None \<rparr>]"
  by (simp add: executeCell_def Let_def setTimeout_def updateCell_def addNotification_notifications)

lemma due_after_executeCell:
  "sort_key fst (filter (due_by (now s + 800)) (timers (executeCell captured cellId s))) =
     sort_key fst (filter (due_by (now s + 800)) (timers s)) @
       [(now s + 800, MockExecutionResult cellId captured)]"
proof -
  have "filter (due_by (now s + 800)) (timers (executeCell captured cellId s)) =
          filter (due_by (now s + 800)) (timers s) @
            [(now s + 800, MockExecutionResult cellId captured)]"
    by (simp add: executeCell_timers due_by_def)
  moreover have "sort_key fst (filter (due_by (now s + 800)) (timers s) @
            [(now s + 800, MockExecutionResult cellId captured)]) =
       sort_key fst (filter (due_by (now s + 800)) (timers s)) @
            [(now s + 800, MockExecutionResult cellId captured)]"
    by (rule sort_key_snoc) (simp add: due_by_def)
  ultimately show ?thesis by simp
qed

lemma executeCell_completed_cells:
  "\<exists>cs. map execution_fields_cleared cs = map execution_fields_cleared (cells s) \<and>
     cells (advance (now s + 800) (executeCell captured cellId s)) =
       map (\<lambda>c. if cell_id c = cellId then merge c (result_updates captured cellId) else c) cs"
proof -
  let ?e = "executeCell captured cellId s"
  let ?s1 = "?e\<lparr>timers := filter (\<lambda>tm. \<not> due_by (now s + 800) tm) (timers ?e)\<rparr>"
  let ?mid = "fold (\<lambda>tm st. fire (snd tm) st)
                (sort_key fst (filter (due_by (now s + 800)) (timers s))) ?s1"
  have "cells (advance (now s + 800) ?e) =
          cells (fire (MockExecutionResult cellId captured) ?mid)"
    by (simp add: advance_def Let_def due_after_executeCell)
  moreover have "map execution_fields_cleared (cells ?mid) =
                   map execution_fields_cleared (cells s)"
    by (simp add: fold_fire_cleared executeCell_cells comp_def execution_fields_cleared_def)
  ultimately show ?thesis
    by (intro exI [of _ "cells ?mid"]) (simp add: updateCell_def)
qed

lemma executeCell_completed_cell:
  assumes "i < length (cells s)" and "cell_id (cells s ! i) = cellId"
  shows "cells (advance (now s + 800) (executeCell captured cellId s)) ! i =
     (cells s ! i)\<lparr>outputs := Some mock_outputs,
        executionCount := Some (next_executionCount captured cellId),
        status := Some Success,
        executionTime := Some \<lparr> time_start = '''', time_end = '''', durationMs = 450 \<rparr>\<rparr>"
proof -
  obtain cs where cs: "map execution_fields_cleared cs = map execution_fields_cleared (cells s)"
    and res: "cells (advance (now s + 800) (executeCell captured cellId s)) =
       map (\<lambda>c. if cell_id c = cellId then merge c (result_updates captured cellId) else c) cs"
    using executeCell_completed_cells by blast
  from cs have len: "length cs = length (cells s)"
    by (rule map_eq_imp_length_eq)
  from cs assms(1) len have cl: "execution_fields_cleared (cs ! i) = execution_fields_cleared (cells s ! i)"
    by (metis nth_map)
  then have "cell_id (cs ! i) = cellId"
    using assms(2) by (metis cleared_cell_id)
  with res len assms(1) have "cells (advance (now s + 800) (executeCell captured cellId s)) ! i =
      merge (cs ! i) (result_updates captured cellId)"
    by simp
  also have "\<dots> = (execution_fields_cleared (cells s ! i))\<lparr>outputs := Some mock_outputs,
        executionCount := Some (next_executionCount captured cellId),
        status := Some Success,
        executionTime := Some \<lparr> time_start = '''', time_end = '''', durationMs = 450 \<rparr>\<rparr>"
    by (simp add: merge_result cl)
  also have "\<dots> = (cells s ! i)\<lparr>outputs := Some mock_outputs,
        executionCount := Some (next_executionCount captured cellId),
        status := Some Success,
        executionTime := Some \<lparr> time_start = '''', time_end = '''', durationMs = 450 \<rparr>\<rparr>"
    by (simp add: execution_fields_cleared_def)
  finally show ?thesis .
qed


lemma quotient_of_of_int: "quotient_of (of_int z) = (z, 1)"
  by (simp add: of_int_rat quotient_of_Fract)






text \<open>
  At \<open>2 ^ 53\<close> the sum \<open>2 ^ 53 + 1\<close> is no double and rounds back to \<open>2 ^ 53\<close>: the count
  does not grow any more. \<open>Infinity\<close> stays \<open>Infinity\<close>.
\<close>

lemma bit_length_double_plus: "bit_length (2 * n + 1) = Suc (bit_length n)"
  by (subst bit_length.simps) simp

lemma js_add_one_saturates:
  "js_add_one (Finite (2 ^ 53)) = Finite (2 ^ 53)" and "js_add_one PosInfinity = PosInfinity"
proof -
  have sum: "(2 ^ 53 :: rat) + 1 = of_int (2 ^ 53 + 1)"
    by simp
  have p: "bit_length (2 ^ k) = Suc k" for k
    by (induction k) (simp_all add: bit_length.simps)
  have bl: "bit_length (2 * 2 ^ 52 + 1) = Suc (Suc 52)"
    by (simp only: bit_length_double_plus p)
  have "nat \<bar>2 ^ 53 + 1 :: int\<bar> = 2 * 2 ^ 52 + 1"
    by simp
  then have "bit_length (nat \<bar>2 ^ 53 + 1 :: int\<bar>) = Suc (Suc 52)"
    by (simp only: bl)
  then have k: "bit_length (nat \<bar>2 ^ 53 + 1 :: int\<bar>) - 53 = 1"
    by simp
  have big: "\<not> \<bar>2 ^ 53 + 1 :: int\<bar> \<le> 2 ^ 53"
    by simp
  have d: "\<bar>2 ^ 53 + 1 :: int\<bar> div 2 ^ 1 = 2 ^ 52" and m: "\<bar>2 ^ 53 + 1 :: int\<bar> mod 2 ^ 1 = 1"
    by simp_all
  have "round53 (2 ^ 53 + 1) = 2 ^ 53"
    unfolding round53_def Let_def k d m using big by simp
  then have "js_add_one (Finite (2 ^ 53)) = Finite (Fract (2 ^ 53) 1)"
    by (simp only: js_add_one_def sum quotient_of_of_int jsnumber.case Let_def prod.case)
  then show "js_add_one (Finite (2 ^ 53)) = Finite (2 ^ 53)"
    by (simp add: Fract_of_int_eq)
  show "js_add_one PosInfinity = PosInfinity"
    by (simp add: js_add_one_def)
qed

text \<open>
  C1, as the code has it. \<open>executeCell\<close> does not look at the cell's type and has no
  failing branch. Called with the id of a cell whose type is outside
  {code, ai_chat, sql, form}, for example markdown, it sets that cell's status to
  running and pushes the info notification "Executing cell..."; when the 800 ms timer
  has fired the cell has status success, the mock outputs, an execution count and an
  execution time. The cell's id, type, content and remaining fields are untouched.
\<close>

theorem executeCell_no_type_check:
  assumes "i < length (cells s)" and "cell_id (cells s ! i) = cellId"
    and "\<not> runCellVisible (cell_type (cells s ! i))"
  shows "cells (executeCell (cells s) cellId s) ! i = (cells s ! i)\<lparr>status := Some Running\<rparr> \<and>
     notification_log (executeCell (cells s) cellId s) =
       notification_log s @ [(Info, ''Executing cell...'')] \<and>
     cells (advance (now s + 800) (executeCell (cells s) cellId s)) ! i =
       (cells s ! i)\<lparr>outputs := Some mock_outputs,
          executionCount := Some (next_executionCount (cells s) cellId),
          status := Some Success,
          executionTime := Some \<lparr> time_start = '''', time_end = '''', durationMs = 450 \<rparr>\<rparr>"
  using assms(1,2)
  by (simp add: executeCell_cells executeCell_notifications notification_log_def
      executeCell_completed_cell)

theorem executeCell_no_type_check_witness:
  "cell_type (cells demo ! 0) = Markdown \<and> \<not> runCellVisible Markdown \<and>
   status (cells demo ! 0) = None \<and>
   status (cells (executeCell (cells demo) ''cell-1000-r0'' demo) ! 0) = Some Running \<and>
   status (cells (advance 1800 (executeCell (cells demo) ''cell-1000-r0'' demo)) ! 0) =
     Some Success"
proof -
  have h1: "0 < length (cells demo)" by (simp add: demo_cells)
  have h2: "cell_id (cells demo ! 0) = ''cell-1000-r0''"
    by (simp add: demo_cells initial_cell_def)
  have h3: "\<not> runCellVisible (cell_type (cells demo ! 0))"
    by (simp add: demo_cells initial_cell_def runCellVisible_def)
  have c: "cell_type (cells demo ! 0) = Markdown" "status (cells demo ! 0) = None"
    by (simp_all add: demo_cells initial_cell_def)
  from executeCell_no_type_check [OF h1 h2 h3] h3 c show ?thesis
    by (simp add: demo_now)
qed

text \<open>
  Executing the markdown cell of the mounted notebook changes it: its status, absent
  before, is running after the call.
\<close>

theorem executeCell_markdown_counterexample:
  "cell_type (cells demo ! 0) = Markdown \<and>
   status (cells demo ! 0) = None \<and>
   status (cells (executeCell (cells demo) ''cell-1000-r0'' demo) ! 0) = Some Running \<and>
   cells (executeCell (cells demo) ''cell-1000-r0'' demo) \<noteq> cells demo"
  by (simp add: executeCell_cells demo_cells initial_cell_def)




subsection \<open>addCell\<close>

text \<open>
  C2, as the code has it. \<open>addCell\<close> never reads its \<open>index\<close> argument and has no
  failing branch: for every index, given or omitted, inside or outside
  \<open>0 .. length\<close>, the new cell is appended at the end and the earlier cells keep their
  places. The new cell has the id that \<open>generateUniqueId('cell')\<close> builds from the clock
  and the random suffix read in the call, status idle, empty outputs and execution count 0, and it
  becomes the active cell. The ids stay pairwise distinct whenever they were distinct
  before and the generated id is not yet the id of a cell.
\<close>

theorem addCell_appends:
  "cells (addCell ty cont index meta s) =
     cells s @
       [\<lparr> cell_id = ''cell-'' @ show_nat (now s) @ ''-'' @ cell_suffixes s (cells_added s),
          cell_type = ty, content = cont, outputs = Some [],
          executionCount = Some (Finite 0),
          status = Some Idle, language = None,
          metadata = Some (case meta of None \<Rightarrow> [] | Some m \<Rightarrow> m),
          comments = Some [], collaborators = None, executionTime = None, author = None,
          visibility = None, lastModified = None, createdAt = None \<rparr>] \<and>
   activeCellId (addCell ty cont index meta s) =
     Some (''cell-'' @ show_nat (now s) @ ''-'' @ cell_suffixes s (cells_added s)) \<and>
   (distinct (map cell_id (cells s)) \<and>
    ''cell-'' @ show_nat (now s) @ ''-'' @ cell_suffixes s (cells_added s)
      \<notin> set (map cell_id (cells s)) \<longrightarrow>
    distinct (map cell_id (cells (addCell ty cont index meta s))))"
  by (simp add: addCell_def generateUniqueId_def Let_def)

theorem addCell_appends_witness:
  "distinct (map cell_id (cells demo)) \<and>
   ''cell-1000-r4'' \<notin> set (map cell_id (cells demo)) \<and>
   map cell_id (cells (addCell SQL (JObj []) None None demo)) =
     [''cell-1000-r0'', ''cell-1000-r1'', ''cell-1000-r2'', ''cell-1000-r3'',
      ''cell-1000-r4''] \<and>
   activeCellId (addCell SQL (JObj []) None None demo) = Some ''cell-1000-r4'' \<and>
   distinct (map cell_id (cells (addCell SQL (JObj []) None None demo)))"
proof -
  have r: "cell_suffixes demo (cells_added demo) = ''r4''"
    by (simp add: demo_def initialNotebook_def demo_random_def generateUniqueId_def show_nat.simps)
  have n: "show_nat (now demo) = ''1000''"
    by (simp add: demo_now show_nat.simps)
  from addCell_appends [of SQL "JObj []" None None demo] show ?thesis
    by (simp add: r n demo_ids)
qed

text \<open>
  With index 0, and with index 99, the new cell of the mounted notebook still lands at
  the end, after the four cells that were there.
\<close>

theorem addCell_index_counterexample:
  "map cell_id (cells (addCell Code (JObj []) (Some 0) None demo)) =
     [''cell-1000-r0'', ''cell-1000-r1'', ''cell-1000-r2'', ''cell-1000-r3'',
      ''cell-1000-r4''] \<and>
   map cell_id (cells (addCell Code (JObj []) (Some 99) None demo)) =
     [''cell-1000-r0'', ''cell-1000-r1'', ''cell-1000-r2'', ''cell-1000-r3'',
      ''cell-1000-r4'']"
  by (simp add: addCell_def generateUniqueId_def Let_def demo_ids)
     (simp add: demo_def initialNotebook_def demo_random_def generateUniqueId_def show_nat.simps)

text \<open>
  The generated id is fresh only as far as the clock and \<open>Math.random\<close> make it so: two
  calls in the same millisecond that draw the same suffix produce the same id.
\<close>

lemma addCell_ids_can_collide:
  "cell_suffixes s (Suc (cells_added s)) = cell_suffixes s (cells_added s) \<Longrightarrow>
   \<not> distinct (map cell_id (cells (addCell ty2 c2 i2 m2 (addCell ty1 c1 i1 m1 s))))"
  by (simp add: addCell_def generateUniqueId_def Let_def)

subsection \<open>updateCell\<close>

lemma merge_keeps_id_and_type:
  "upd_id u = None \<Longrightarrow> upd_type u = None \<Longrightarrow>
     cell_id (merge c u) = cell_id c \<and> cell_type (merge c u) = cell_type c"
  by (simp add: merge_def)

text \<open>
  C6, as the code has it. \<open>updateCell\<close> replaces every cell whose id matches by the
  spread of the cell and the update, and leaves every other cell and the length of the
  sequence alone. The id and the type of every cell are unaltered whenever the update
  carries neither an \<open>id\<close> nor a \<open>type\<close> key. With an id that no cell has, the cell
  store is unchanged.
\<close>

theorem updateCell_merges:
  "length (cells (updateCell cellId u s)) = length (cells s) \<and>
   (\<forall>i < length (cells s).
      cells (updateCell cellId u s) ! i =
        (if cell_id (cells s ! i) = cellId then merge (cells s ! i) u else cells s ! i)) \<and>
   (upd_id u = None \<and> upd_type u = None \<longrightarrow>
      map cell_id (cells (updateCell cellId u s)) = map cell_id (cells s) \<and>
      map cell_type (cells (updateCell cellId u s)) = map cell_type (cells s)) \<and>
   (cellId \<notin> set (map cell_id (cells s)) \<longrightarrow> cells (updateCell cellId u s) = cells s)"
proof -
  have "cellId \<notin> set (map cell_id (cells s)) \<longrightarrow>
      map (\<lambda>c. if cell_id c = cellId then merge c u else c) (cells s) = cells s"
    by (intro impI map_idI) auto
  moreover have "upd_id u = None \<and> upd_type u = None \<longrightarrow>
      map cell_id (map (\<lambda>c. if cell_id c = cellId then merge c u else c) (cells s)) =
        map cell_id (cells s) \<and>
      map cell_type (map (\<lambda>c. if cell_id c = cellId then merge c u else c) (cells s)) =
        map cell_type (cells s)"
    by (simp add: merge_keeps_id_and_type)
  ultimately show ?thesis
    by (simp add: updateCell_def)
qed

theorem updateCell_merges_witness:
  "upd_id (no_updates\<lparr>upd_content := Some (JStr ''x = 1'')\<rparr>) = None \<and>
   upd_type (no_updates\<lparr>upd_content := Some (JStr ''x = 1'')\<rparr>) = None \<and>
   content (cells (updateCell ''cell-1000-r1''
       (no_updates\<lparr>upd_content := Some (JStr ''x = 1'')\<rparr>) demo) ! 1) = JStr ''x = 1'' \<and>
   cell_type (cells (updateCell ''cell-1000-r1''
       (no_updates\<lparr>upd_content := Some (JStr ''x = 1'')\<rparr>) demo) ! 1) = Code \<and>
   map cell_id (cells (updateCell ''cell-1000-r1''
       (no_updates\<lparr>upd_content := Some (JStr ''x = 1'')\<rparr>) demo)) = map cell_id (cells demo) \<and>
   ''cell-0-zzz'' \<notin> set (map cell_id (cells demo)) \<and>
   cells (updateCell ''cell-0-zzz''
       (no_updates\<lparr>upd_content := Some (JStr ''x = 1'')\<rparr>) demo) = cells demo"
proof -
  let ?u = "no_updates\<lparr>upd_content := Some (JStr ''x = 1'')\<rparr>"
  have u: "upd_id ?u = None" "upd_type ?u = None"
    by (simp_all add: no_updates_def)
  have absent: "''cell-0-zzz'' \<notin> set (map cell_id (cells demo))"
    by (simp add: demo_ids)
  have c: "cell_id (cells demo ! 1) = ''cell-1000-r1''" "cell_type (cells demo ! 1) = Code"
    "length (cells demo) = 4"
    by (simp_all add: demo_cells initial_cell_def)
  have m: "content (merge (cells demo ! 1) ?u) = JStr ''x = 1''"
    "cell_type (merge (cells demo ! 1) ?u) = cell_type (cells demo ! 1)"
    by (simp_all add: merge_def no_updates_def)
  from updateCell_merges [of "''cell-1000-r1''" ?u demo]
    updateCell_merges [of "''cell-0-zzz''" ?u demo] u absent c m
  show ?thesis by simp
qed

text \<open>
  \<open>Partial<EnhancedCell>\<close> admits the keys \<open>type\<close> and \<open>id\<close>, and the spread writes
  them: an update with \<open>type: 'markdown'\<close> turns the code cell of the mounted notebook
  into a markdown cell, and an update with an \<open>id\<close> gives it the id of another cell.
\<close>

theorem updateCell_type_counterexample:
  "cell_type (cells demo ! 1) = Code \<and>
   cell_type (cells (updateCell ''cell-1000-r1''
       (no_updates\<lparr>upd_type := Some Markdown\<rparr>) demo) ! 1) = Markdown \<and>
   map cell_id (cells (updateCell ''cell-1000-r1''
       (no_updates\<lparr>upd_id := Some ''cell-1000-r0''\<rparr>) demo)) =
     [''cell-1000-r0'', ''cell-1000-r0'', ''cell-1000-r2'', ''cell-1000-r3'']"
  by (simp add: updateCell_def demo_cells initial_cell_def merge_def no_updates_def)

subsection \<open>runAllCells\<close>

lemma includes_code_sql:
  "type_string ty \<in> set [''code'', ''sql''] \<longleftrightarrow> ty = Code \<or> ty = SQL"
  by (cases ty) simp_all

lemma pending_executions_executeCell:
  "pending_executions (executeCell captured cellId s) = pending_executions s @ [cellId]"
  by (simp add: pending_executions_def executeCell_timers)

lemma notification_log_executeCell:
  "notification_log (executeCell captured cellId s) =
     notification_log s @ [(Info, ''Executing cell...'')]"
  by (simp add: notification_log_def executeCell_notifications)

lemma fold_executeCell_pending:
  "pending_executions
     (fold (\<lambda>c st. if type_string (cell_type c) \<in> set [''code'', ''sql'']
                     then executeCell captured (cell_id c) st else st) cs s) =
   pending_executions s @
     map cell_id (filter (\<lambda>c. cell_type c = Code \<or> cell_type c = SQL) cs)"
proof (induction cs arbitrary: s)
  case Nil
  then show ?case by simp
next
  case (Cons c cs)
  show ?case
  proof (cases "cell_type c = Code \<or> cell_type c = SQL")
    case True
    then have "type_string (cell_type c) \<in> set [''code'', ''sql'']"
      by (simp only: includes_code_sql)
    with True Cons.IH [of "executeCell captured (cell_id c) s"] show ?thesis
      by (simp add: pending_executions_executeCell)
  next
    case False
    then have "type_string (cell_type c) \<notin> set [''code'', ''sql'']"
      by (simp only: includes_code_sql) simp
    with False Cons.IH [of s] show ?thesis
      by simp
  qed
qed

lemma fold_executeCell_log:
  "notification_log
     (fold (\<lambda>c st. if type_string (cell_type c) \<in> set [''code'', ''sql'']
                     then executeCell captured (cell_id c) st else st) cs s) =
   notification_log s @
     replicate (length (filter (\<lambda>c. cell_type c = Code \<or> cell_type c = SQL) cs))
       (Info, ''Executing cell...'')"
proof (induction cs arbitrary: s)
  case Nil
  then show ?case by simp
next
  case (Cons c cs)
  show ?case
  proof (cases "cell_type c = Code \<or> cell_type c = SQL")
    case True
    then have "type_string (cell_type c) \<in> set [''code'', ''sql'']"
      by (simp only: includes_code_sql)
    with True Cons.IH [of "executeCell captured (cell_id c) s"] show ?thesis
      by (simp add: notification_log_executeCell replicate_append_same)
  next
    case False
    then have "type_string (cell_type c) \<notin> set [''code'', ''sql'']"
      by (simp only: includes_code_sql) simp
    with False Cons.IH [of s] show ?thesis
      by simp
  qed
qed

lemma pending_executions_addNotification:
  "pending_executions (addNotification ty msg src s) = pending_executions s"
  by (simp add: pending_executions_def addNotification_timers)

lemma notification_log_addNotification:
  "notification_log (addNotification ty msg src s) = notification_log s @ [(ty, msg)]"
  by (simp add: notification_log_def addNotification_notifications)

lemma runAllCells_dispatches:
  "pending_executions (runAllCells s) =
     pending_executions s @
       map cell_id (filter (\<lambda>c. cell_type c = Code \<or> cell_type c = SQL) (cells s))"
  by (simp only: runAllCells_def Let_def fold_executeCell_pending
      pending_executions_addNotification)

lemma runAllCells_log:
  "notification_log (runAllCells s) =
     notification_log s @ (Info, ''Running all cells...'') #
       replicate (length (filter (\<lambda>c. cell_type c = Code \<or> cell_type c = SQL) (cells s)))
         (Info, ''Executing cell...'')"
  by (simp only: runAllCells_def Let_def fold_executeCell_log
      notification_log_addNotification append_assoc append_Cons append_Nil)

text \<open>
  C3. The mounted notebook holds a markdown, a code, a data and an ai_chat cell. The
  "Run Cell" rule of the same file counts ai_chat and form among the runnable types, yet
  \<open>runAllCells\<close> tests \<open>['code', 'sql']\<close>: it dispatches the code cell only, and the
  ai_chat cell gets no execution.
\<close>

theorem runAllCells_skips_ai_chat:
  "map cell_type (cells demo) = [Markdown, Code, Data, AIChat] \<and>
   runCellVisible AIChat \<and> runCellVisible Form \<and>
   pending_executions demo = [] \<and>
   pending_executions (runAllCells demo) = [''cell-1000-r1'']"
proof -
  have none: "pending_executions demo = []"
    by (simp add: pending_executions_def demo_timers)
  have "pending_executions (runAllCells demo) =
      pending_executions demo @
        map cell_id (filter (\<lambda>c. cell_type c = Code \<or> cell_type c = SQL) (cells demo))"
    by (rule runAllCells_dispatches)
  also have "\<dots> = [''cell-1000-r1'']"
    by (simp add: none demo_cells initial_cell_def)
  finally have "pending_executions (runAllCells demo) = [''cell-1000-r1'']" .
  with none show ?thesis
    by (simp add: demo_cells initial_cell_def runCellVisible_def)
qed

subsection \<open>Notifications of the operations\<close>

lemma notification_log_fire_result:
  "notification_log (fire (MockExecutionResult cellId captured) s) = notification_log s"
  by (simp add: notification_log_def updateCell_def)

lemma notification_log_updateCell:
  "notification_log (updateCell cellId u s) = notification_log s"
  by (simp add: updateCell_def notification_log_def)

lemma notification_log_addCell:
  "notification_log (addCell ty cont index meta s) =
     notification_log s @ [(Info, ''Added '' @ type_string ty @ '' cell'')]"
proof -
  have "notification_log (addCell ty cont index meta s) =
      notification_log (s\<lparr>cells_added := Suc (cells_added s)\<rparr>) @
        [(Info, ''Added '' @ type_string ty @ '' cell'')]"
    by (simp add: addCell_def generateUniqueId_def Let_def notification_log_addNotification)
      (simp add: notification_log_def)
  then show ?thesis
    by (simp add: notification_log_def)
qed

lemma notification_log_deleteCell:
  "notification_log (deleteCell cellId s) = notification_log s @ [(Info, ''Cell deleted'')]"
  by (simp add: deleteCell_def notification_log_addNotification)
    (simp add: notification_log_def)

text \<open>
  C5, as the code has it. \<open>addCell\<close>, \<open>deleteCell\<close>, \<open>executeCell\<close> and
  \<open>saveNotebook\<close> each append exactly one notification (\<open>executeCell\<close> on start; the
  completion of the execution appends none). \<open>updateCell\<close>, \<open>moveCell\<close> and
  \<open>loadNotebook\<close> append none. \<open>runAllCells\<close> appends one notification of its own and
  one more for each code or sql cell it dispatches.
\<close>

theorem facade_notifications:
  "notification_log (addCell ty cont index meta s) =
     notification_log s @ [(Info, ''Added '' @ type_string ty @ '' cell'')] \<and>
   notification_log (deleteCell cellId s) = notification_log s @ [(Info, ''Cell deleted'')] \<and>
   notification_log (executeCell captured cellId s) =
     notification_log s @ [(Info, ''Executing cell...'')] \<and>
   notification_log (fire (MockExecutionResult cellId captured) s) = notification_log s \<and>
   notification_log (saveNotebook s) = notification_log s @ [(NSuccess, ''Notebook Saved'')] \<and>
   notification_log (updateCell cellId u s) = notification_log s \<and>
   notification_log (moveCell from to s) = notification_log s \<and>
   notification_log (loadNotebook nid s) = notification_log s \<and>
   notification_log (runAllCells s) =
     notification_log s @ (Info, ''Running all cells...'') #
       replicate (length (filter (\<lambda>c. cell_type c = Code \<or> cell_type c = SQL) (cells s)))
         (Info, ''Executing cell...'')"
  by (simp only: notification_log_addCell notification_log_deleteCell
      notification_log_executeCell notification_log_fire_result saveNotebook_def
      notification_log_addNotification notification_log_updateCell moveCell_def
      loadNotebook_def runAllCells_log simp_thms)

text \<open>
  On the mounted notebook \<open>updateCell\<close> changes the content of the code cell and the
  queue stays empty; \<open>loadNotebook\<close> leaves it empty too; \<open>runAllCells\<close> appends two
  notifications.
\<close>

theorem updateCell_silent_counterexample:
  "notification_log demo = [] \<and>
   content (cells (updateCell ''cell-1000-r1''
       (no_updates\<lparr>upd_content := Some (JStr ''x = 1'')\<rparr>) demo) ! 1) = JStr ''x = 1'' \<and>
   notification_log (updateCell ''cell-1000-r1''
       (no_updates\<lparr>upd_content := Some (JStr ''x = 1'')\<rparr>) demo) = [] \<and>
   notification_log (loadNotebook ''nb-1'' demo) = [] \<and>
   notification_log (runAllCells demo) =
     [(Info, ''Running all cells...''), (Info, ''Executing cell...'')]"
proof -
  have "notification_log (runAllCells demo) =
     [(Info, ''Running all cells...''), (Info, ''Executing cell...'')]"
    by (simp add: runAllCells_log demo_cells initial_cell_def)
       (simp add: notification_log_def demo_notifications)
  then show ?thesis
    by (simp add: notification_log_def updateCell_def loadNotebook_def demo_notifications
      demo_cells initial_cell_def merge_def no_updates_def)
qed

subsection \<open>Decay of notifications\<close>

lemma fold_fire_dismissals:
  "(\<And>tm. tm \<in> set tms \<Longrightarrow> snd tm = AutoDismiss) \<Longrightarrow>
     notifications (fold (\<lambda>tm st. fire (snd tm) st) tms s) =
       drop (length tms) (notifications s)"
proof (induction tms arbitrary: s)
  case Nil
  then show ?case by simp
next
  case (Cons tm tms)
  then have "snd tm = AutoDismiss" by simp
  with Cons show ?case
    by (simp add: drop_Suc drop_tl)
qed

lemma advance_dismissals:
  assumes "\<And>tm. tm \<in> set (timers s) \<Longrightarrow> snd tm = AutoDismiss"
  shows "notifications (advance t s) =
     drop (length (filter (due_by t) (timers s))) (notifications s)"
proof -
  have "\<And>tm. tm \<in> set (sort_key fst (filter (due_by t) (timers s))) \<Longrightarrow> snd tm = AutoDismiss"
    using assms by simp
  then have "notifications (fold (\<lambda>tm st. fire (snd tm) st)
         (sort_key fst (filter (due_by t) (timers s)))
         (s\<lparr>timers := filter (\<lambda>tm. \<not> due_by t tm) (timers s)\<rparr>)) =
       drop (length (sort_key fst (filter (due_by t) (timers s))))
         (notifications (s\<lparr>timers := filter (\<lambda>tm. \<not> due_by t tm) (timers s)\<rparr>))"
    by (rule fold_fire_dismissals)
  then show ?thesis
    by (simp add: advance_def Let_def)
qed

lemma advance_nothing_due:
  "(\<And>tm. tm \<in> set (timers s) \<Longrightarrow> \<not> due_by t tm) \<Longrightarrow> advance t s = s\<lparr>now := max t (now s)\<rparr>"
  by (simp add: advance_def Let_def filter_empty_conv filter_id_conv)

lemma advance_dismissals_log:
  assumes "\<And>tm. tm \<in> set (timers s) \<Longrightarrow> snd tm = AutoDismiss"
  shows "notification_log (advance t s) =
     drop (length (filter (due_by t) (timers s))) (notification_log s)"
  using advance_dismissals [OF assms] by (simp add: notification_log_def drop_map)

lemma push_three_state:
  assumes "timers s = []" and "d1 + d2 < 5000"
  shows "timers (push_three a b c d1 d2 s) =
      [(now s + 5000, AutoDismiss), (now s + d1 + 5000, AutoDismiss),
       (now s + d1 + d2 + 5000, AutoDismiss)]"
    and "notification_log (push_three a b c d1 d2 s) = notification_log s @ [a, b, c]"
    and "now (push_three a b c d1 d2 s) = now s + d1 + d2"
proof -
  define s1 where "s1 = addNotification (fst a) (snd a) None s"
  define w1 where "w1 = advance (now s1 + d1) s1"
  define s2 where "s2 = addNotification (fst b) (snd b) None w1"
  define w2 where "w2 = advance (now s2 + d2) s2"
  have p: "push_three a b c d1 d2 s = addNotification (fst c) (snd c) None w2"
    by (simp add: push_three_def Let_def s1_def w1_def s2_def w2_def)
  have t1: "timers s1 = [(now s + 5000, AutoDismiss)]" and n1: "now s1 = now s"
    and l1: "notification_log s1 = notification_log s @ [a]"
    by (simp_all add: s1_def addNotification_timers assms(1) notification_log_addNotification)
  have "advance (now s1 + d1) s1 = s1\<lparr>now := max (now s1 + d1) (now s1)\<rparr>"
    using assms(2) by (intro advance_nothing_due) (simp add: t1 n1 due_by_def)
  then have w1: "w1 = s1\<lparr>now := now s + d1\<rparr>"
    by (simp add: w1_def n1)
  have t2: "timers s2 = [(now s + 5000, AutoDismiss), (now s + d1 + 5000, AutoDismiss)]"
    and n2: "now s2 = now s + d1"
    by (simp_all add: s2_def addNotification_timers w1 t1)
  have "notification_log w1 = notification_log s @ [a]"
    using l1 by (simp add: w1 notification_log_def)
  then have l2: "notification_log s2 = notification_log s @ [a, b]"
    by (simp add: s2_def notification_log_addNotification)
  have "advance (now s2 + d2) s2 = s2\<lparr>now := max (now s2 + d2) (now s2)\<rparr>"
    using assms(2) by (intro advance_nothing_due) (auto simp add: t2 n2 due_by_def)
  then have w2: "w2 = s2\<lparr>now := now s + d1 + d2\<rparr>"
    by (simp add: w2_def n2)
  have "notification_log w2 = notification_log s @ [a, b]"
    using l2 by (simp add: w2 notification_log_def)
  then show "notification_log (push_three a b c d1 d2 s) = notification_log s @ [a, b, c]"
    by (simp add: p notification_log_addNotification)
  show "timers (push_three a b c d1 d2 s) =
      [(now s + 5000, AutoDismiss), (now s + d1 + 5000, AutoDismiss),
       (now s + d1 + d2 + 5000, AutoDismiss)]"
    by (simp add: p addNotification_timers w2 t2)
  show "now (push_three a b c d1 d2 s) = now s + d1 + d2"
    by (simp add: p w2)
qed

text \<open>
  C8, as the code has it. Every push sets a timer of its own that removes the oldest
  surviving notification 5000 ms after that push. After three pushes at times
  \<open>t0 \<le> t1 \<le> t2 < t0 + 5000\<close> into a session with no pending timer, the queue at time
  \<open>t\<close> has lost as many of its oldest entries as there are pushes at least 5000 ms old.
  So exactly one notification, the oldest, is gone only from \<open>t0 + 5000\<close> until
  \<open>t1 + 5000\<close>; from \<open>t2 + 5000\<close> on all three are gone.
\<close>

theorem three_notifications_decay:
  assumes "timers s = []" and "d1 + d2 < 5000"
  shows "notification_log (push_three a b c d1 d2 s) = notification_log s @ [a, b, c] \<and>
     notification_log (advance t (push_three a b c d1 d2 s)) =
       drop (decayed (now s) t + decayed (now s + d1) t + decayed (now s + d1 + d2) t)
         (notification_log s @ [a, b, c])"
proof -
  let ?p = "push_three a b c d1 d2 s"
  have tm: "timers ?p =
      [(now s + 5000, AutoDismiss), (now s + d1 + 5000, AutoDismiss),
       (now s + d1 + d2 + 5000, AutoDismiss)]"
    using assms by (rule push_three_state(1))
  have lg: "notification_log ?p = notification_log s @ [a, b, c]"
    using assms by (rule push_three_state(2))
  have "notification_log (advance t ?p) =
      drop (length (filter (due_by t) (timers ?p))) (notification_log ?p)"
    by (rule advance_dismissals_log) (auto simp: tm)
  moreover have "length (filter (due_by t) (timers ?p)) =
      decayed (now s) t + decayed (now s + d1) t + decayed (now s + d1 + d2) t"
    by (simp add: tm due_by_def decayed_def)
  ultimately show ?thesis
    by (simp only: lg simp_thms)
qed

theorem three_notifications_decay_witness:
  "timers demo = [] \<and> (1::nat) + 1 < 5000 \<and>
   notification_log (push_three (Info, ''a'') (Info, ''b'') (Info, ''c'') 1 1 demo) =
     [(Info, ''a''), (Info, ''b''), (Info, ''c'')] \<and>
   notification_log (advance 6000 (push_three (Info, ''a'') (Info, ''b'') (Info, ''c'') 1 1 demo)) =
     [(Info, ''b''), (Info, ''c'')] \<and>
   notification_log (advance 6002 (push_three (Info, ''a'') (Info, ''b'') (Info, ''c'') 1 1 demo)) = []"
proof -
  have h1: "timers demo = []" by (rule demo_timers)
  have h2: "(1::nat) + 1 < 5000" by simp
  have l: "notification_log demo = []" by (simp add: notification_log_def demo_notifications)
  from three_notifications_decay [OF h1 h2, of "(Info, ''a'')" "(Info, ''b'')" "(Info, ''c'')" 6000]
    three_notifications_decay [OF h1 h2, of "(Info, ''a'')" "(Info, ''b'')" "(Info, ''c'')" 6002]
    h1 show ?thesis
    by (simp add: l demo_now decayed_def)
qed

text \<open>
  Three pushes in the same millisecond, as one event handler makes them: 5000 ms later
  all three timers fire and the queue is empty, not two entries long.
\<close>

theorem three_notifications_counterexample:
  "notification_log (push_three (Info, ''a'') (Info, ''b'') (Info, ''c'') 0 0 demo) =
     [(Info, ''a''), (Info, ''b''), (Info, ''c'')] \<and>
   now (push_three (Info, ''a'') (Info, ''b'') (Info, ''c'') 0 0 demo) = 1000 \<and>
   notification_log
     (advance 6000 (push_three (Info, ''a'') (Info, ''b'') (Info, ''c'') 0 0 demo)) = []"
proof -
  have h1: "timers demo = []" by (rule demo_timers)
  have h2: "(0::nat) + 0 < 5000" by simp
  let ?p = "push_three (Info, ''a'') (Info, ''b'') (Info, ''c'') 0 0 demo"
  have tm: "timers ?p = [(6000, AutoDismiss), (6000, AutoDismiss), (6000, AutoDismiss)]"
    using push_three_state(1) [OF h1 h2] by (simp add: demo_now)
  have lg: "notification_log ?p = [(Info, ''a''), (Info, ''b''), (Info, ''c'')]"
    using push_three_state(2) [OF h1 h2] by (simp add: notification_log_def demo_notifications)
  have nw: "now ?p = 1000"
    using push_three_state(3) [OF h1 h2] by (simp add: demo_now)
  have "notification_log (advance 6000 ?p) =
      drop (length (filter (due_by 6000) (timers ?p))) (notification_log ?p)"
    by (rule advance_dismissals_log) (auto simp: tm)
  then have "notification_log (advance 6000 ?p) = []"
    by (simp add: tm lg due_by_def)
  with lg nw show ?thesis
    by (simp only: simp_thms)
qed

end
